theory Spec2Isabelle
  imports Main "HOL-Library.Log_Nat"
begin

section \<open>Binary64 numbers\<close>

text \<open>
  Every number of the program is a Python \<open>float\<close> or a \<open>numpy.float64\<close>: an IEEE 754
  binary64 value. A finite value is the rational number it denotes (the two zeros are
  identified: they compare equal and no division by zero is ever evaluated on them);
  the other values are the two infinities and NaN. An arithmetic operation computes the
  exact rational result and rounds it to the nearest representable value, ties to even
  (\<open>round64\<close>): 53 significant bits, exponents from \<open>-1022\<close> to \<open>1023\<close>, gradual underflow
  below, overflow to an infinity (a rounded magnitude of \<open>2^1024\<close> or more) above.
\<close>

datatype f64 = Fin rat | PInf | NInf | NaN

definition pow2 :: "int \<Rightarrow> rat" where
  "pow2 e = (if 0 \<le> e then 2 ^ nat e else 1 / 2 ^ nat (- e))"

text \<open>\<open>ilog2 q\<close> is the integer \<open>e\<close> with \<open>2^e \<le> q < 2^(e+1)\<close>, for a positive \<open>q\<close>.\<close>

definition ilog2 :: "rat \<Rightarrow> int" where
  "ilog2 q = (if 1 \<le> q then bitlen \<lfloor>q\<rfloor> - 1 else - bitlen (\<lceil>1 / q\<rceil> - 1))"

text \<open>Rounding to the nearest integer, a tie going to the even neighbour.\<close>

definition rne :: "rat \<Rightarrow> int" where
  "rne q = (let f = \<lfloor>q\<rfloor>; r = q - of_int f
            in if r < 1 / 2 then f else if 1 / 2 < r then f + 1
               else if even f then f else f + 1)"

definition round64 :: "rat \<Rightarrow> f64" where
  "round64 q =
     (if q = 0 then Fin 0
      else let e = max (ilog2 \<bar>q\<bar>) (- 1022);
               u = pow2 (e - 52);
               r = of_int (rne (q / u)) * u
           in if 1024 \<le> ilog2 \<bar>r\<bar> then (if 0 < q then PInf else NInf) else Fin r)"

fun fneg :: "f64 \<Rightarrow> f64" where
  "fneg (Fin a) = Fin (- a)"
| "fneg PInf = NInf"
| "fneg NInf = PInf"
| "fneg NaN = NaN"

fun fadd :: "f64 \<Rightarrow> f64 \<Rightarrow> f64" where
  "fadd (Fin a) (Fin b) = round64 (a + b)"
| "fadd NaN y = NaN"
| "fadd x NaN = NaN"
| "fadd PInf NInf = NaN"
| "fadd NInf PInf = NaN"
| "fadd PInf y = PInf"
| "fadd NInf y = NInf"
| "fadd x PInf = PInf"
| "fadd x NInf = NInf"

definition fsub :: "f64 \<Rightarrow> f64 \<Rightarrow> f64" where
  "fsub x y = fadd x (fneg y)"

text \<open>The sign of a product with an infinity; zero times an infinity is NaN.\<close>

definition inf_times :: "bool \<Rightarrow> rat \<Rightarrow> f64" where
  "inf_times positive a =
     (if a = 0 then NaN else if (0 < a) = positive then PInf else NInf)"

fun fmul :: "f64 \<Rightarrow> f64 \<Rightarrow> f64" where
  "fmul (Fin a) (Fin b) = round64 (a * b)"
| "fmul NaN y = NaN"
| "fmul x NaN = NaN"
| "fmul PInf (Fin b) = inf_times True b"
| "fmul NInf (Fin b) = inf_times False b"
| "fmul (Fin a) PInf = inf_times True a"
| "fmul (Fin a) NInf = inf_times False a"
| "fmul PInf PInf = PInf"
| "fmul NInf NInf = PInf"
| "fmul PInf NInf = NInf"
| "fmul NInf PInf = NInf"

text \<open>The comparisons \<open>x > y\<close> and \<open>x <= y\<close>; both are false when an operand is NaN.\<close>

fun fgt :: "f64 \<Rightarrow> f64 \<Rightarrow> bool" where
  "fgt (Fin a) (Fin b) = (b < a)"
| "fgt NaN y = False"
| "fgt x NaN = False"
| "fgt PInf PInf = False"
| "fgt PInf y = True"
| "fgt x PInf = False"
| "fgt NInf y = False"
| "fgt x NInf = True"

fun fle :: "f64 \<Rightarrow> f64 \<Rightarrow> bool" where
  "fle NaN y = False"
| "fle x NaN = False"
| "fle x y = (\<not> fgt x y)"

datatype py_error = KeyError | ZeroDivisionError | UnicodeDecodeError

text \<open>
  Python's \<open>x / y\<close> on floats raises \<open>ZeroDivisionError\<close> when \<open>y\<close> is zero, whatever
  \<open>x\<close> is, and is the IEEE quotient otherwise.
\<close>

fun pydiv :: "f64 \<Rightarrow> f64 \<Rightarrow> py_error + f64" where
  "pydiv x (Fin b) =
     (if b = 0 then Inl ZeroDivisionError
      else Inr (case x of
                  Fin a \<Rightarrow> round64 (a / b)
                | PInf \<Rightarrow> inf_times True b
                | NInf \<Rightarrow> inf_times False b
                | NaN \<Rightarrow> NaN))"
| "pydiv (Fin a) PInf = Inr (Fin 0)"
| "pydiv (Fin a) NInf = Inr (Fin 0)"
| "pydiv x y = Inr NaN"

section \<open>The data frame\<close>

text \<open>
  \<open>simulation_data\<close> is a pandas \<open>DataFrame\<close> with the default integer index: a list of
  column labels and a list of rows, a row giving each column its cell. A cell of a row is
  read only through \<open>at_get\<close>, which asks for the column to exist. The cells hold binary64
  numbers (the columns of the program are numeric).
\<close>

type_synonym row = "string \<Rightarrow> f64"

record dataframe =
  columns :: "string list"
  rows :: "row list"

text \<open>\<open>pd.DataFrame()\<close>\<close>

definition new_dataframe :: dataframe where
  "new_dataframe = \<lparr>columns = [], rows = []\<rparr>"

text \<open>\<open>len(df)\<close> is the number of rows; \<open>df.empty\<close> holds when an axis has length 0.\<close>

definition len :: "dataframe \<Rightarrow> nat" where
  "len df = length (rows df)"

definition is_empty :: "dataframe \<Rightarrow> bool" where
  "is_empty df = (columns df = [] \<or> rows df = [])"

text \<open>\<open>df.at[i, c]\<close>, read: \<open>KeyError\<close> when the row or the column does not exist.\<close>

definition at_get :: "dataframe \<Rightarrow> nat \<Rightarrow> string \<Rightarrow> py_error + f64" where
  "at_get df i c =
     (if i < length (rows df) \<and> c \<in> set (columns df) then Inr ((rows df ! i) c)
      else Inl KeyError)"

text \<open>
  \<open>df.at[i, c] = v\<close> for an existing row \<open>i\<close> (the program writes only at an index it
  has just read): a column that does not exist yet is added, NaN in the other rows.
\<close>

definition at_set :: "dataframe \<Rightarrow> nat \<Rightarrow> string \<Rightarrow> f64 \<Rightarrow> dataframe" where
  "at_set df i c v =
     (if c \<in> set (columns df)
      then df\<lparr>rows := (rows df)[i := (rows df ! i)(c := v)]\<rparr>
      else \<lparr>columns = columns df @ [c],
            rows = (map (\<lambda>r. r(c := NaN)) (rows df))[i := (rows df ! i)(c := v)]\<rparr>)"

text \<open>\<open>df[c] = [v] * len(df)\<close>\<close>

definition set_column :: "dataframe \<Rightarrow> string \<Rightarrow> f64 \<Rightarrow> dataframe" where
  "set_column df c v =
     \<lparr>columns = (if c \<in> set (columns df) then columns df else columns df @ [c]),
      rows = map (\<lambda>r. r(c := v)) (rows df)\<rparr>"

text \<open>
  A decoded JSON object is a Python \<open>dict\<close>, given by its items in order (the keys are
  distinct). \<open>pd.concat([df, pd.DataFrame([d])], ignore_index=True)\<close> appends one row:
  the columns are those of \<open>df\<close> followed by the new keys of \<open>d\<close>, and a cell that
  either side does not supply is NaN.
\<close>

type_synonym pydict = "(string \<times> f64) list"

definition concat_row :: "dataframe \<Rightarrow> pydict \<Rightarrow> dataframe" where
  "concat_row df d =
     \<lparr>columns = columns df @ filter (\<lambda>k. k \<notin> set (columns df)) (map fst d),
      rows = map (\<lambda>r c. if c \<in> set (columns df) then r c else NaN) (rows df)
             @ [\<lambda>c. case map_of d c of Some v \<Rightarrow> v | None \<Rightarrow> NaN]\<rparr>"

section \<open>The window's state\<close>

text \<open>
  The fields of \<open>MainWindow\<close> that the control loop and the ingestion read or write.
  The widgets appear by what the code reads from them: for each of the parameters
  \<open>P\<close>, \<open>I\<close>, \<open>D\<close> whether its checkbox is checked, and what \<open>float(...)\<close> makes of the
  text of its value label and of its value input (\<open>None\<close> for \<open>ValueError\<close>); the timer
  by its interval in milliseconds and whether it is active. Plotting, the table widget
  and the console are left out.
\<close>

record main_window =
  simulation_data :: dataframe
  fixed_pid_values :: "string \<rightharpoonup> f64"
  previous_error :: f64
  integral_error :: f64
  current_index :: nat
  timer_active :: bool
  timer_interval :: int
  pid_enabled :: "string \<Rightarrow> bool"
  value_label :: "string \<Rightarrow> f64 option"
  value_input :: "string \<Rightarrow> f64 option"
  running :: bool

definition get_pid_value_from_ui :: "main_window \<Rightarrow> string \<Rightarrow> f64" where
  "get_pid_value_from_ui s param =
     (if pid_enabled s param
      then (case value_label s param of
              Some v \<Rightarrow> v
            | None \<Rightarrow> (case value_input s param of Some v \<Rightarrow> v | None \<Rightarrow> Fin 0))
      else Fin 0)"

section \<open>The control step\<close>

text \<open>
  \<open>dt = self.timer.interval() / 1000.0\<close>: the interval is an \<open>int\<close> of Qt (32 bits, so
  its conversion to a float is exact) and the divisor a non-zero literal, so the quotient
  is the correctly rounded one.
\<close>

definition dt_of :: "int \<Rightarrow> f64" where
  "dt_of interval = round64 (of_int interval / 1000)"

text \<open>\<open>self.fixed_pid_values.get(param, 0.0)\<close>\<close>

definition gain :: "main_window \<Rightarrow> string \<Rightarrow> f64" where
  "gain s param = (case fixed_pid_values s param of Some v \<Rightarrow> v | None \<Rightarrow> Fin 0)"

text \<open>\<open>(error - self.previous_error) / dt if dt > 0 else 0.0\<close>\<close>

definition derivative_error :: "f64 \<Rightarrow> f64 \<Rightarrow> f64 \<Rightarrow> py_error + f64" where
  "derivative_error error prev dt =
     (if fgt dt (Fin 0) then pydiv (fsub error prev) dt else Inr (Fin 0))"

text \<open>\<open>(Kp * error) + (Ki * self.integral_error) + (Kd * derivative_error)\<close>\<close>

definition pid_output :: "f64 \<Rightarrow> f64 \<Rightarrow> f64 \<Rightarrow> f64 \<Rightarrow> f64 \<Rightarrow> f64 \<Rightarrow> f64" where
  "pid_output Kp Ki Kd error integral derivative =
     fadd (fadd (fmul Kp error) (fmul Ki integral)) (fmul Kd derivative)"

text \<open>
  \<open>update_plot\<close> is the timer's callback. The source returns \<open>None\<close> on both of its
  paths; the model names the path taken: \<open>Done\<close> for the early return that stops the
  timer, \<open>Advanced i\<close> for the step that processes row \<open>i\<close>. The two reads of the row
  come before every assignment, so a \<open>KeyError\<close> leaves the state as it was.
\<close>

datatype tick_result = Done | Advanced nat

definition update_plot :: "main_window \<Rightarrow> py_error + tick_result \<times> main_window" where
  "update_plot s =
     (let df = simulation_data s; i = current_index s
      in if is_empty df \<or> len df \<le> i then Inr (Done, s\<lparr>timer_active := False\<rparr>)
         else case at_get df i ''Setpoint'' of
           Inl e \<Rightarrow> Inl e
         | Inr setpoint \<Rightarrow>
             (case at_get df i ''Valor Medido'' of
                Inl e \<Rightarrow> Inl e
              | Inr measured_value \<Rightarrow>
                  (let error = fsub setpoint measured_value;
                       Kp = gain s ''P'';
                       Ki = gain s ''I'';
                       Kd = gain s ''D'';
                       dt = dt_of (timer_interval s);
                       integral = fadd (integral_error s) (fmul error dt)
                   in case derivative_error error (previous_error s) dt of
                        Inl e \<Rightarrow> Inl e
                      | Inr derivative \<Rightarrow>
                          (let output = pid_output Kp Ki Kd error integral derivative;
                               new_measured_value = fadd measured_value (fmul output dt);
                               df1 = at_set df i ''Valor Medido'' new_measured_value;
                               df2 = at_set df1 i ''Error'' error
                           in Inr (Advanced i,
                                   s\<lparr>simulation_data := df2,
                                     integral_error := integral,
                                     previous_error := error,
                                     current_index := i + 1\<rparr>)))))"

text \<open>
  The cell that an advancing step writes to \<open>Valor Medido\<close>:
  \<open>measured_value + pid_output * dt\<close>, from the two cells read and the derivative error.
\<close>

definition new_measured :: "main_window \<Rightarrow> f64 \<Rightarrow> f64 \<Rightarrow> f64 \<Rightarrow> f64" where
  "new_measured s setpoint measured derivative =
     fadd measured
       (fmul (pid_output (gain s ''P'') (gain s ''I'') (gain s ''D'') (fsub setpoint measured)
                (fadd (integral_error s) (fmul (fsub setpoint measured) (dt_of (timer_interval s))))
                derivative)
             (dt_of (timer_interval s)))"

section \<open>Starting, pausing and resetting a run\<close>

definition start_simulation :: "main_window \<Rightarrow> main_window" where
  "start_simulation s =
     (if is_empty (simulation_data s) then s
      else let fixed = (\<lambda>param. if param \<in> set [''P'', ''I'', ''D'']
                                  then Some (get_pid_value_from_ui s param) else None);
               df = fold (\<lambda>param df. if param \<in> set (columns df)
                                       then set_column df param (get_pid_value_from_ui s param)
                                       else df)
                         [''P'', ''I'', ''D''] (simulation_data s)
           in s\<lparr>timer_active := True,
                fixed_pid_values := fixed,
                simulation_data := df,
                previous_error := Fin 0,
                integral_error := Fin 0,
                current_index := 0\<rparr>)"

definition pause_simulation :: "main_window \<Rightarrow> main_window" where
  "pause_simulation s = s\<lparr>timer_active := False\<rparr>"

definition reset_simulation :: "main_window \<Rightarrow> main_window" where
  "reset_simulation s =
     s\<lparr>timer_active := False,
       current_index := 0,
       previous_error := Fin 0,
       integral_error := Fin 0,
       fixed_pid_values := Map.empty,
       simulation_data := new_dataframe\<rparr>"

section \<open>Ingestion\<close>

text \<open>
  \<open>process_received_data\<close> takes what \<open>json.loads\<close> returned: a \<open>dict\<close> or a value of
  another type, which it rejects. It appends the record and then calls \<open>update_plot\<close>.
  An exception of that call leaves the window with the record appended.
\<close>

datatype json = JObject pydict | JOther

definition process_received_data ::
    "main_window \<Rightarrow> json \<Rightarrow> py_error \<times> main_window + main_window" where
  "process_received_data s json_data =
     (case json_data of
        JOther \<Rightarrow> Inr s
      | JObject d \<Rightarrow>
          (let s1 = s\<lparr>simulation_data := concat_row (simulation_data s) d\<rparr>
           in case update_plot s1 of
                Inl e \<Rightarrow> Inl (e, s1)
              | Inr (r, s2) \<Rightarrow> Inr s2))"

text \<open>
  What \<open>recv\<close> returns is modelled by what the library calls of \<open>receive_data\<close> make of
  it: the empty chunk of a closed stream; bytes that \<open>data.decode('utf-8')\<close> rejects
  with \<open>UnicodeDecodeError\<close>; text that \<open>json.loads\<close> rejects with \<open>JSONDecodeError\<close>;
  text that \<open>json.loads\<close> turns into a value. The loop runs on the chunks received so
  far and says how it was left: \<open>Waiting\<close> in the next \<open>recv\<close>, or by the flag
  \<open>running\<close>, the \<open>break\<close> of a closed stream, or the handler of the outer \<open>try\<close>.
\<close>

datatype chunk = Closed | BadUtf8 | BadJson | Json json

datatype loop_exit = Waiting | Stopped | ConnectionClosed | SocketError py_error

fun receive_loop :: "chunk list \<Rightarrow> main_window \<Rightarrow> loop_exit \<times> main_window" where
  "receive_loop [] s = (if running s then (Waiting, s) else (Stopped, s))"
| "receive_loop (data # rest) s =
     (if \<not> running s then (Stopped, s)
      else case data of
        Closed \<Rightarrow> (ConnectionClosed, s)
      | BadUtf8 \<Rightarrow> (SocketError UnicodeDecodeError, s)
      | BadJson \<Rightarrow> receive_loop rest s
      | Json json_data \<Rightarrow>
          (case process_received_data s json_data of
             Inl (e, s') \<Rightarrow> (SocketError e, s')
           | Inr s' \<Rightarrow> receive_loop rest s'))"

text \<open>\<open>start_socket_connection\<close> sets the flag and runs \<open>receive_data\<close> on the stream.\<close>

definition start_socket_connection :: "main_window \<Rightarrow> chunk list \<Rightarrow> loop_exit \<times> main_window" where
  "start_socket_connection s stream = receive_loop stream (s\<lparr>running := True\<rparr>)"

section \<open>The telemetry server\<close>

text \<open>
  The record that \<open>server.py\<close> sends at step \<open>time_step\<close>; the step is an \<open>int\<close>,
  converted to a float where it is multiplied with one, and a literal such as \<open>0.1\<close> is
  the binary64 number nearest to it.
\<close>

definition server_record :: "nat \<Rightarrow> pydict" where
  "server_record time_step =
     [(''Time'', fmul (round64 (of_nat time_step)) (round64 (1 / 10))),
      (''Setpoint'', Fin 50),
      (''Valor Medido'', fsub (Fin 50) (fmul (round64 (of_nat time_step)) (Fin (1 / 2)))),
      (''Error'', fmul (round64 (of_nat time_step)) (Fin (1 / 2))),
      (''P'', round64 (1 / 10)),
      (''I'', round64 (1 / 20)),
      (''D'', round64 (1 / 100))]"

section \<open>The window as constructed\<close>

text \<open>
  \<open>__init__\<close>: no data, the timer at 100 ms and inactive, the three checkboxes checked
  and each slider at 50 of 100 between the default bounds 0 and 1, so that label and
  input show \<open>0.50\<close>.
\<close>

definition init_window :: main_window where
  "init_window =
     \<lparr>simulation_data = new_dataframe,
      fixed_pid_values = Map.empty,
      previous_error = Fin 0,
      integral_error = Fin 0,
      current_index = 0,
      timer_active = False,
      timer_interval = 100,
      pid_enabled = (\<lambda>param. True),
      value_label = (\<lambda>param. Some (Fin (1 / 2))),
      value_input = (\<lambda>param. Some (Fin (1 / 2))),
      running = False\<rparr>"

section \<open>The timer\<close>



section \<open>Scenarios\<close>

text \<open>
  A store of one row, time 0, setpoint 50, measured value 40, in a window whose \<open>P\<close>
  checkbox is checked with the label at \<open>1.00\<close> and whose \<open>I\<close> and \<open>D\<close> checkboxes are
  unchecked (their labels show \<open>0.00\<close>).
\<close>

definition scenario_record :: pydict where
  "scenario_record = [(''Time'', Fin 0), (''Setpoint'', Fin 50), (''Valor Medido'', Fin 40)]"

definition scenario_store :: dataframe where
  "scenario_store = concat_row new_dataframe scenario_record"

definition scenario_window :: main_window where
  "scenario_window =
     init_window\<lparr>simulation_data := scenario_store,
                 pid_enabled := (\<lambda>param. param = ''P''),
                 value_label := (\<lambda>param. Some (if param = ''P'' then Fin 1 else Fin 0))\<rparr>"

text \<open>
  A second row, and the window of a run over the two rows that was started, took one
  step and was paused.
\<close>

definition two_row_store :: dataframe where
  "two_row_store =
     concat_row scenario_store
       [(''Time'', round64 (1 / 10)), (''Setpoint'', Fin 50), (''Valor Medido'', Fin 45)]"

definition two_row_window :: main_window where
  "two_row_window = scenario_window\<lparr>simulation_data := two_row_store\<rparr>"

definition paused_window :: main_window where
  "paused_window =
     (case update_plot (start_simulation two_row_window) of
        Inr (r, s) \<Rightarrow> pause_simulation s
      | Inl e \<Rightarrow> two_row_window)"

text \<open>The window that a call of \<open>process_received_data\<close> leaves, raised or returned.\<close>

definition window_after :: "py_error \<times> main_window + main_window \<Rightarrow> main_window" where
  "window_after result = (case result of Inl (e, s) \<Rightarrow> s | Inr s \<Rightarrow> s)"

text \<open>
  Ingestion into the fresh window: of the scenario's record; of the server's first
  record, with the window as it is when \<open>process_received_data\<close> calls \<open>update_plot\<close>
  and as it is left; and a record that has only three of the seven fields.
\<close>

definition partial_record :: pydict where
  "partial_record =
     [(''Time'', round64 (1 / 10)), (''Setpoint'', Fin 50), (''Valor Medido'', Fin 45)]"

definition first_record_window :: main_window where
  "first_record_window =
     init_window\<lparr>simulation_data := concat_row new_dataframe (server_record 0)\<rparr>"


definition ingested_window :: main_window where
  "ingested_window = window_after (process_received_data init_window (JObject (server_record 0)))"



section \<open>Properties of the rounding\<close>

lemma pow2_nonneg: "0 \<le> e \<Longrightarrow> pow2 e = 2 ^ nat e"
  by (simp add: pow2_def)

lemma pow2_neg: "e \<le> 0 \<Longrightarrow> pow2 e = 1 / 2 ^ nat (- e)"
  by (cases "e = 0") (simp_all add: pow2_def)

text \<open>\<open>ilog2\<close> finds the binade of a positive number.\<close>

lemma ilog2_bounds:
  assumes "0 < q"
  shows "pow2 (ilog2 q) \<le> q \<and> q < pow2 (ilog2 q + 1)"
proof (cases "1 \<le> q")
  case True
  define n where "n = \<lfloor>q\<rfloor>"
  from True have n: "0 < n" by (simp add: n_def)
  from bitlen_bounds [OF n] have b: "2 ^ nat (bitlen n - 1) \<le> n" "n < 2 ^ nat (bitlen n)"
    by simp_all
  from n have l: "1 \<le> bitlen n" by (auto simp: bitlen_alt_def)
  have "(of_int (2 ^ nat (bitlen n - 1)) :: rat) \<le> of_int n"
    using b(1) by (simp only: of_int_le_iff)
  also have "\<dots> \<le> q" by (simp add: n_def)
  finally have lo: "2 ^ nat (bitlen n - 1) \<le> q" by simp
  from b(2) have "n + 1 \<le> 2 ^ nat (bitlen n)" by simp
  then have "(of_int (n + 1) :: rat) \<le> of_int (2 ^ nat (bitlen n))"
    by (simp only: of_int_le_iff)
  moreover have "q < of_int (n + 1)"
    using floor_correct [of q] by (simp add: n_def)
  ultimately have hi: "q < 2 ^ nat (bitlen n)" by simp
  from True l lo hi show ?thesis
    by (simp add: ilog2_def n_def [symmetric] pow2_nonneg)
next
  case False
  define m where "m = \<lceil>1 / q\<rceil> - 1"
  from False assms have y: "1 < 1 / q" by simp
  then have m: "0 < m" by (simp add: m_def less_ceiling_iff)
  from bitlen_bounds [OF m] have b: "2 ^ nat (bitlen m - 1) \<le> m" "m < 2 ^ nat (bitlen m)"
    by simp_all
  from m have l: "1 \<le> bitlen m" by (auto simp: bitlen_alt_def)
  have "of_int m < 1 / q"
    by (simp add: m_def) (metis ceiling_correct diff_less_eq)
  with b(1) have "(of_int (2 ^ nat (bitlen m - 1)) :: rat) < 1 / q"
    by (meson of_int_le_iff order_le_less_trans)
  then have "(2 ^ nat (bitlen m - 1) :: rat) < 1 / q" by simp
  with assms have hi: "q < 1 / 2 ^ nat (bitlen m - 1)"
    by (simp add: field_simps)
  from b(2) have "m + 1 \<le> 2 ^ nat (bitlen m)" by simp
  then have "(of_int (m + 1) :: rat) \<le> of_int (2 ^ nat (bitlen m))"
    by (simp only: of_int_le_iff)
  moreover have "1 / q \<le> of_int (m + 1)" by (simp add: m_def)
  ultimately have "1 / q \<le> 2 ^ nat (bitlen m)" by simp
  with assms have lo: "1 / 2 ^ nat (bitlen m) \<le> q"
    by (simp add: field_simps)
  have e: "nat (- (1 - bitlen m)) = nat (bitlen m - 1)" by simp
  from False l lo hi show ?thesis
    by (simp add: ilog2_def m_def [symmetric] pow2_neg e)
qed

text \<open>\<open>rne\<close> is at most one half away from its argument.\<close>

lemma rne_nearest: "\<bar>of_int (rne q) - q\<bar> \<le> 1 / 2"
proof -
  from floor_correct [of q] have "of_int \<lfloor>q\<rfloor> \<le> q" "q < of_int \<lfloor>q\<rfloor> + 1"
    by simp_all
  then show ?thesis
    by (auto simp: rne_def Let_def abs_le_iff)
qed

section \<open>Properties of the data frame\<close>

lemma len_at_set: "len (at_set df i c v) = len df"
  by (simp add: at_set_def len_def)

lemma columns_at_set: "set (columns (at_set df i c v)) = insert c (set (columns df))"
  by (auto simp: at_set_def)

lemma at_get_at_set_same: "i < len df \<Longrightarrow> at_get (at_set df i c v) i c = Inr v"
  by (simp add: at_get_def at_set_def len_def)

lemma at_get_at_set_other_column:
  "c' \<noteq> c \<Longrightarrow> at_get (at_set df i c v) j c' = at_get df j c'"
  by (cases "i = j") (auto simp: at_get_def at_set_def nth_list_update)


lemma at_get_error: "at_get df i c = Inl e \<Longrightarrow> e = KeyError"
  by (auto simp: at_get_def split: if_splits)

section \<open>Properties of the control step\<close>

lemma round64_0: "round64 0 = Fin 0"
  by (simp add: round64_def)

lemma update_plot_Done:
  "len (simulation_data s) \<le> current_index s \<Longrightarrow>
   update_plot s = Inr (Done, s\<lparr>timer_active := False\<rparr>)"
  by (simp add: update_plot_def Let_def)

text \<open>The guard \<open>dt > 0\<close> keeps the division away from a zero divisor.\<close>

lemma derivative_error_total: "\<exists>d. derivative_error error prev dt = Inr d"
proof (cases "fgt dt (Fin 0)")
  case False
  then show ?thesis by (simp add: derivative_error_def)
next
  case True
  then show ?thesis
    by (cases dt; cases "fsub error prev") (auto simp: derivative_error_def)
qed

lemma derivative_error_nonpositive:
  "fle dt (Fin 0) \<Longrightarrow> derivative_error error prev dt = Inr (Fin 0)"
  by (cases dt) (auto simp: derivative_error_def)

text \<open>The only exception of a step is the \<open>KeyError\<close> of a missing column.\<close>

lemma update_plot_error:
  assumes "update_plot s = Inl e"
  shows "e = KeyError"
proof (cases "is_empty (simulation_data s) \<or> len (simulation_data s) \<le> current_index s")
  case True
  with assms show ?thesis by (simp add: update_plot_def Let_def)
next
  case False
  show ?thesis
  proof (cases "at_get (simulation_data s) (current_index s) ''Setpoint''")
    case (Inl e1)
    with False assms have "e = e1" by (simp add: update_plot_def Let_def)
    with Inl show ?thesis by (auto dest: at_get_error)
  next
    case sp: (Inr setpoint)
    show ?thesis
    proof (cases "at_get (simulation_data s) (current_index s) ''Valor Medido''")
      case (Inl e1)
      with False sp assms have "e = e1" by (simp add: update_plot_def Let_def)
      with Inl show ?thesis by (auto dest: at_get_error)
    next
      case m: (Inr measured)
      obtain d where "derivative_error (fsub setpoint measured) (previous_error s)
          (dt_of (timer_interval s)) = Inr d"
        using derivative_error_total by blast
      with False sp m assms show ?thesis by (simp add: update_plot_def Let_def)
    qed
  qed
qed

text \<open>The step on a row that has both cells, written out.\<close>

lemma update_plot_Advanced:
  assumes "\<not> is_empty (simulation_data s)" "current_index s < len (simulation_data s)"
    and "at_get (simulation_data s) (current_index s) ''Setpoint'' = Inr setpoint"
    and "at_get (simulation_data s) (current_index s) ''Valor Medido'' = Inr measured"
    and "derivative_error (fsub setpoint measured) (previous_error s)
           (dt_of (timer_interval s)) = Inr derivative"
  shows "update_plot s =
     Inr (Advanced (current_index s),
          s\<lparr>simulation_data :=
              at_set (at_set (simulation_data s) (current_index s) ''Valor Medido''
                        (new_measured s setpoint measured derivative))
                (current_index s) ''Error'' (fsub setpoint measured),
            integral_error :=
              fadd (integral_error s) (fmul (fsub setpoint measured) (dt_of (timer_interval s))),
            previous_error := fsub setpoint measured,
            current_index := current_index s + 1\<rparr>)"
  using assms by (simp add: update_plot_def Let_def new_measured_def)



lemmas scenario_defs =
  start_simulation_def scenario_window_def scenario_store_def scenario_record_def init_window_def
  concat_row_def new_dataframe_def is_empty_def at_get_def len_def gain_def
  get_pid_value_from_ui_def set_column_def


lemma update_plot_step:
  assumes "\<not> is_empty (simulation_data s)" "current_index s < len (simulation_data s)"
    and "at_get (simulation_data s) (current_index s) ''Setpoint'' = Inr setpoint"
    and "at_get (simulation_data s) (current_index s) ''Valor Medido'' = Inr measured"
    and "derivative_error (fsub setpoint measured) (previous_error s)
           (dt_of (timer_interval s)) = Inr derivative"
  shows "\<exists>s'. update_plot s = Inr (Advanced (current_index s), s') \<and>
     at_get (simulation_data s') (current_index s) ''Error'' = Inr (fsub setpoint measured) \<and>
     at_get (simulation_data s') (current_index s) ''Valor Medido''
       = Inr (new_measured s setpoint measured derivative) \<and>
     previous_error s' = fsub setpoint measured \<and>
     integral_error s'
       = fadd (integral_error s) (fmul (fsub setpoint measured) (dt_of (timer_interval s))) \<and>
     current_index s' = current_index s + 1 \<and>
     len (simulation_data s') = len (simulation_data s)"
  using assms(2)
  by (simp add: update_plot_Advanced [OF assms] at_get_at_set_same
      at_get_at_set_other_column len_at_set)







text \<open>
  C6. A step taken when the cursor \<open>current_index\<close> is at or beyond the length of the
  store takes the \<open>Done\<close> exit and changes neither the store (its length and every row)
  nor \<open>previous_error\<close>, \<open>integral_error\<close> or the cursor.
\<close>

theorem tick_at_end_is_Done:
  assumes "len (simulation_data s) \<le> current_index s"
  shows "\<exists>s'. update_plot s = Inr (Done, s') \<and>
           simulation_data s' = simulation_data s \<and>
           previous_error s' = previous_error s \<and>
           integral_error s' = integral_error s \<and>
           current_index s' = current_index s"
  using update_plot_Done [OF assms] by simp

theorem tick_at_end_is_Done_witness:
  "len (simulation_data (scenario_window\<lparr>current_index := 1\<rparr>))
     \<le> current_index (scenario_window\<lparr>current_index := 1\<rparr>) \<and>
   (\<exists>s'. update_plot (scenario_window\<lparr>current_index := 1\<rparr>) = Inr (Done, s') \<and>
      simulation_data s' = simulation_data (scenario_window\<lparr>current_index := 1\<rparr>) \<and>
      previous_error s' = previous_error (scenario_window\<lparr>current_index := 1\<rparr>) \<and>
      integral_error s' = integral_error (scenario_window\<lparr>current_index := 1\<rparr>) \<and>
      current_index s' = current_index (scenario_window\<lparr>current_index := 1\<rparr>))"
proof -
  have h: "len (simulation_data (scenario_window\<lparr>current_index := 1\<rparr>))
     \<le> current_index (scenario_window\<lparr>current_index := 1\<rparr>)"
    by (simp add: scenario_window_def scenario_store_def concat_row_def new_dataframe_def len_def)
  from tick_at_end_is_Done [OF h] h show ?thesis by blast
qed

text \<open>
  C7. When \<open>dt <= 0\<close> the derivative error is exactly \<open>0.0\<close>, whatever the error and the
  previous error are, and for no \<open>dt\<close> does the derivative, or the step, raise
  \<open>ZeroDivisionError\<close>.
\<close>

theorem derivative_guard:
  "(fle dt (Fin 0) \<longrightarrow> derivative_error error prev dt = Inr (Fin 0)) \<and>
   derivative_error error prev dt \<noteq> Inl ZeroDivisionError \<and>
   update_plot s \<noteq> Inl ZeroDivisionError"
  using derivative_error_total [of error prev dt] update_plot_error [of s ZeroDivisionError]
  by (auto simp: derivative_error_nonpositive)

theorem derivative_guard_witness:
  "fle (dt_of 0) (Fin 0) \<and> derivative_error (Fin 10) (Fin 3) (dt_of 0) = Inr (Fin 0)"
  using derivative_guard [of "dt_of 0" "Fin 10" "Fin 3" scenario_window]
  by (simp add: dt_of_def round64_0)

section \<open>Properties of appending a record\<close>


lemma columns_concat_row: "set (columns (concat_row df d)) = set (columns df) \<union> fst ` set d"
  by (auto simp: concat_row_def)


lemma at_get_concat_row_new:
  "at_get (concat_row df d) (len df) c =
     (case map_of d c of
        Some v \<Rightarrow> Inr v
      | None \<Rightarrow> if c \<in> set (columns df) then Inr NaN else Inl KeyError)"
proof (cases "map_of d c")
  case None
  then have "c \<notin> fst ` set d" by (simp add: map_of_eq_None_iff)
  with None show ?thesis
    by (simp add: at_get_def concat_row_def len_def nth_append)
next
  case (Some v)
  then have "(c, v) \<in> set d" by (rule map_of_SomeD)
  then have "c \<in> fst ` set d" by force
  with Some show ?thesis
    by (simp add: at_get_def concat_row_def len_def nth_append)
qed

section \<open>The two exits of a step\<close>

lemma update_plot_Inr_cases:
  assumes "update_plot s = Inr (r, s')"
  obtains (Done) "r = Done" "s' = s\<lparr>timer_active := False\<rparr>"
  | (Advanced) setpoint measured derivative where
      "\<not> is_empty (simulation_data s)" "current_index s < len (simulation_data s)"
      "at_get (simulation_data s) (current_index s) ''Setpoint'' = Inr setpoint"
      "at_get (simulation_data s) (current_index s) ''Valor Medido'' = Inr measured"
      "derivative_error (fsub setpoint measured) (previous_error s)
         (dt_of (timer_interval s)) = Inr derivative"
      "r = Advanced (current_index s)"
      "s' = s\<lparr>simulation_data :=
              at_set (at_set (simulation_data s) (current_index s) ''Valor Medido''
                        (new_measured s setpoint measured derivative))
                (current_index s) ''Error'' (fsub setpoint measured),
            integral_error :=
              fadd (integral_error s) (fmul (fsub setpoint measured) (dt_of (timer_interval s))),
            previous_error := fsub setpoint measured,
            current_index := current_index s + 1\<rparr>"
proof (cases "is_empty (simulation_data s) \<or> len (simulation_data s) \<le> current_index s")
  case True
  with assms have "r = Done" "s' = s\<lparr>timer_active := False\<rparr>"
    by (simp_all add: update_plot_def Let_def)
  then show ?thesis by (rule Done)
next
  case False
  from False assms obtain setpoint where sp:
    "at_get (simulation_data s) (current_index s) ''Setpoint'' = Inr setpoint"
    by (cases "at_get (simulation_data s) (current_index s) ''Setpoint''")
       (simp_all add: update_plot_def Let_def)
  from False assms sp obtain measured where m:
    "at_get (simulation_data s) (current_index s) ''Valor Medido'' = Inr measured"
    by (cases "at_get (simulation_data s) (current_index s) ''Valor Medido''")
       (simp_all add: update_plot_def Let_def)
  obtain d where d: "derivative_error (fsub setpoint measured) (previous_error s)
      (dt_of (timer_interval s)) = Inr d"
    using derivative_error_total by blast
  from False have ne: "\<not> is_empty (simulation_data s)"
    and lt: "current_index s < len (simulation_data s)" by simp_all
  from assms update_plot_Advanced [OF ne lt sp m d]
  have "r = Advanced (current_index s)"
    "s' = s\<lparr>simulation_data :=
              at_set (at_set (simulation_data s) (current_index s) ''Valor Medido''
                        (new_measured s setpoint measured d))
                (current_index s) ''Error'' (fsub setpoint measured),
            integral_error :=
              fadd (integral_error s) (fmul (fsub setpoint measured) (dt_of (timer_interval s))),
            previous_error := fsub setpoint measured,
            current_index := current_index s + 1\<rparr>"
    by simp_all
  with ne lt sp m d show ?thesis by (rule Advanced)
qed

text \<open>What a step leaves alone.\<close>

lemma update_plot_len:
  "update_plot s = Inr (r, s') \<Longrightarrow> len (simulation_data s') = len (simulation_data s)"
  by (erule update_plot_Inr_cases) (simp_all add: len_at_set)

lemma update_plot_other_column:
  "update_plot s = Inr (r, s') \<Longrightarrow> c \<noteq> ''Valor Medido'' \<Longrightarrow> c \<noteq> ''Error'' \<Longrightarrow>
   at_get (simulation_data s') j c = at_get (simulation_data s) j c"
  by (erule update_plot_Inr_cases) (simp_all add: at_get_at_set_other_column)


lemma update_plot_cursor:
  "update_plot s = Inr (r, s') \<Longrightarrow>
   current_index s' = (case r of Done \<Rightarrow> current_index s | Advanced i \<Rightarrow> current_index s + 1)"
  by (erule update_plot_Inr_cases) simp_all

lemma update_plot_settings:
  "update_plot s = Inr (r, s') \<Longrightarrow>
   fixed_pid_values s' = fixed_pid_values s \<and> timer_interval s' = timer_interval s \<and>
   running s' = running s"
  by (erule update_plot_Inr_cases) simp_all

section \<open>Start, pause and reset\<close>

lemma start_simulation_nonempty:
  "\<not> is_empty (simulation_data s) \<Longrightarrow>
   previous_error (start_simulation s) = Fin 0 \<and>
   integral_error (start_simulation s) = Fin 0 \<and>
   current_index (start_simulation s) = 0"
  by (simp add: start_simulation_def Let_def)

lemma start_simulation_empty: "is_empty (simulation_data s) \<Longrightarrow> start_simulation s = s"
  by (simp add: start_simulation_def)

lemma two_row_start:
  "\<not> is_empty (simulation_data (start_simulation two_row_window))"
  "current_index (start_simulation two_row_window) = 0"
  "len (simulation_data (start_simulation two_row_window)) = 2"
  "at_get (simulation_data (start_simulation two_row_window)) 0 ''Setpoint'' = Inr (Fin 50)"
  "at_get (simulation_data (start_simulation two_row_window)) 0 ''Valor Medido'' = Inr (Fin 40)"
  by (simp_all add: two_row_window_def two_row_store_def scenario_defs)

lemma paused_window_cursor:
  "current_index paused_window = 1 \<and> \<not> is_empty (simulation_data paused_window)"
proof -
  let ?S = "start_simulation two_row_window"
  obtain d where d: "derivative_error (fsub (Fin 50) (Fin 40)) (previous_error ?S)
      (dt_of (timer_interval ?S)) = Inr d"
    using derivative_error_total by blast
  have a: "current_index ?S < len (simulation_data ?S)"
    "at_get (simulation_data ?S) (current_index ?S) ''Setpoint'' = Inr (Fin 50)"
    "at_get (simulation_data ?S) (current_index ?S) ''Valor Medido'' = Inr (Fin 40)"
    by (simp_all add: two_row_start)
  note step = update_plot_Advanced [OF two_row_start(1) a d]
  have ne: "columns (simulation_data ?S) \<noteq> [] \<and> rows (simulation_data ?S) \<noteq> []"
    using two_row_start(1) by (simp add: is_empty_def)
  show ?thesis
    unfolding paused_window_def step
    using ne by (auto simp: pause_simulation_def two_row_start is_empty_def at_set_def)
qed

text \<open>
  C3, as stated, fails: a start does not leave the cursor where a pause left it. In the
  run over two rows that was paused after one step the cursor is 1, and the start that
  follows puts it back to 0.
\<close>

theorem start_keeps_cursor_counterexample:
  "current_index paused_window = 1 \<and> current_index (start_simulation paused_window) = 0"
  using paused_window_cursor by (simp add: start_simulation_nonempty)

text \<open>
  C3, amended. On a store that is not empty a start resets \<open>previous_error\<close> and
  \<open>integral_error\<close> to 0 and also the cursor to 0, so that a start after a pause begins
  again at the first row; on an empty store a start changes nothing. A pause keeps the
  cursor, the two errors and the store, and a reset puts the cursor to 0.
\<close>

theorem start_pause_reset:
  "(\<not> is_empty (simulation_data s) \<longrightarrow>
      previous_error (start_simulation s) = Fin 0 \<and>
      integral_error (start_simulation s) = Fin 0 \<and>
      current_index (start_simulation s) = 0) \<and>
   (is_empty (simulation_data s) \<longrightarrow> start_simulation s = s) \<and>
   current_index (pause_simulation s) = current_index s \<and>
   previous_error (pause_simulation s) = previous_error s \<and>
   integral_error (pause_simulation s) = integral_error s \<and>
   simulation_data (pause_simulation s) = simulation_data s \<and>
   current_index (reset_simulation s) = 0"
  by (simp add: start_simulation_nonempty start_simulation_empty pause_simulation_def
      reset_simulation_def)

theorem start_pause_reset_witness:
  "(\<not> is_empty (simulation_data paused_window) \<and>
      current_index paused_window = 1 \<and>
      previous_error (start_simulation paused_window) = Fin 0 \<and>
      integral_error (start_simulation paused_window) = Fin 0 \<and>
      current_index (start_simulation paused_window) = 0) \<and>
   (is_empty (simulation_data init_window) \<and> start_simulation init_window = init_window)"
proof -
  have e: "is_empty (simulation_data init_window)"
    by (simp add: init_window_def new_dataframe_def is_empty_def)
  from start_pause_reset [of paused_window] start_pause_reset [of init_window]
    paused_window_cursor e
  show ?thesis by simp
qed

section \<open>Properties of ingestion\<close>

lemma round64_tenth: "round64 (1 / 10) = Fin (3602879701896397 / 36028797018963968)"
  by code_simp

lemma columns_update_plot:
  "update_plot s = Inr (r, s') \<Longrightarrow>
   set (columns (simulation_data s)) \<subseteq> set (columns (simulation_data s'))"
  by (erule update_plot_Inr_cases) (auto simp: columns_at_set)

lemma process_received_data_JObject:
  "window_after (process_received_data s (JObject d)) =
     (case update_plot (s\<lparr>simulation_data := concat_row (simulation_data s) d\<rparr>) of
        Inl e \<Rightarrow> s\<lparr>simulation_data := concat_row (simulation_data s) d\<rparr>
      | Inr (r, s') \<Rightarrow> s')"
  by (simp add: process_received_data_def window_after_def Let_def split: sum.splits prod.splits)


lemma ingest_columns:
  "set (columns (simulation_data s)) \<union> fst ` set d
     \<subseteq> set (columns (simulation_data (window_after (process_received_data s (JObject d)))))"
proof (cases "update_plot (s\<lparr>simulation_data := concat_row (simulation_data s) d\<rparr>)")
  case (Inl e)
  then show ?thesis by (simp add: process_received_data_JObject columns_concat_row)
next
  case (Inr p)
  obtain r s' where p: "p = (r, s')" by (cases p)
  from columns_update_plot [OF Inr [unfolded p]] Inr p show ?thesis
    by (simp add: process_received_data_JObject columns_concat_row)
qed

lemma ingest_other_column:
  assumes "c \<noteq> ''Valor Medido''" "c \<noteq> ''Error''"
  shows "at_get (simulation_data (window_after (process_received_data s (JObject d)))) j c
     = at_get (concat_row (simulation_data s) d) j c"
proof (cases "update_plot (s\<lparr>simulation_data := concat_row (simulation_data s) d\<rparr>)")
  case (Inl e)
  then show ?thesis by (simp add: process_received_data_JObject)
next
  case (Inr p)
  obtain r s' where p: "p = (r, s')" by (cases p)
  from update_plot_other_column [OF Inr [unfolded p] assms, of j] Inr p show ?thesis
    by (simp add: process_received_data_JObject)
qed



lemma first_record_window_facts:
  "\<not> is_empty (simulation_data first_record_window)"
  "current_index first_record_window = 0"
  "len (simulation_data first_record_window) = 1"
  "at_get (simulation_data first_record_window) 0 ''Setpoint'' = Inr (Fin 50)"
  "at_get (simulation_data first_record_window) 0 ''P'' = Inr (round64 (1 / 10))"
  "''P'' \<in> set (columns (simulation_data first_record_window))"
  "''Setpoint'' \<in> set (columns (simulation_data first_record_window))"
  "gain first_record_window ''P'' = Fin 0"
  "\<exists>m. at_get (simulation_data first_record_window) 0 ''Valor Medido'' = Inr m"
  by (simp_all add: first_record_window_def server_record_def scenario_defs
      del: fmul.simps fadd.simps)

lemma first_record_step: "update_plot first_record_window = Inr (Advanced 0, ingested_window)"
proof -
  obtain m where m: "at_get (simulation_data first_record_window)
      (current_index first_record_window) ''Valor Medido'' = Inr m"
    using first_record_window_facts by auto
  obtain d where d: "derivative_error (fsub (Fin 50) m) (previous_error first_record_window)
      (dt_of (timer_interval first_record_window)) = Inr d"
    using derivative_error_total by blast
  have a: "current_index first_record_window < len (simulation_data first_record_window)"
    "at_get (simulation_data first_record_window) (current_index first_record_window)
       ''Setpoint'' = Inr (Fin 50)"
    by (simp_all add: first_record_window_facts)
  note step = update_plot_Advanced [OF first_record_window_facts(1) a m d]
  have eq: "init_window\<lparr>simulation_data :=
        concat_row (simulation_data init_window) (server_record 0)\<rparr> = first_record_window"
    by (simp add: first_record_window_def init_window_def)
  have "ingested_window
      = window_after (process_received_data init_window (JObject (server_record 0)))"
    by (simp add: ingested_window_def)
  also have "\<dots> = (case update_plot first_record_window of
        Inl e \<Rightarrow> first_record_window | Inr (r, s') \<Rightarrow> s')"
    by (simp only: process_received_data_JObject eq)
  finally show ?thesis
    by (simp add: step first_record_window_facts)
qed

text \<open>
  C4, as stated, fails for the three gain fields. The step that follows the ingestion of
  the server's first record into the fresh window advances over row 0 with the gain 0.0
  for \<open>P\<close> (no run was started: \<open>fixed_pid_values\<close> is empty), and the row's \<open>P\<close> cell is
  afterwards what the server sent, the binary64 number nearest to 0.1.
\<close>

theorem row_gains_counterexample:
  "update_plot first_record_window = Inr (Advanced 0, ingested_window) \<and>
   gain first_record_window ''P'' = Fin 0 \<and>
   at_get (simulation_data ingested_window) 0 ''P''
     = Inr (Fin (3602879701896397 / 36028797018963968))"
  using update_plot_other_column [OF first_record_step, of "''P''" 0]
  by (simp add: first_record_step first_record_window_facts round64_tenth)


lemma start_simulation_columns:
  assumes "\<not> is_empty (simulation_data s)" "param \<in> {''P'', ''I'', ''D''}"
    "param \<in> set (columns (simulation_data s))" "j < len (simulation_data s)"
  shows "at_get (simulation_data (start_simulation s)) j param
     = Inr (gain (start_simulation s) param)"
  using assms
  by (auto simp: start_simulation_def Let_def gain_def set_column_def at_get_def len_def)

lemma ingested_window_facts:
  "current_index ingested_window = 1"
  "len (simulation_data ingested_window) = 1"
  "''P'' \<in> set (columns (simulation_data ingested_window))"
  "''Setpoint'' \<in> set (columns (simulation_data ingested_window))"
proof -
  from update_plot_cursor [OF first_record_step]
  show "current_index ingested_window = 1"
    by (simp add: first_record_window_facts)
  from update_plot_len [OF first_record_step]
  show "len (simulation_data ingested_window) = 1"
    by (simp add: first_record_window_facts)
  from columns_update_plot [OF first_record_step]
  show "''P'' \<in> set (columns (simulation_data ingested_window))"
    "''Setpoint'' \<in> set (columns (simulation_data ingested_window))"
    using first_record_window_facts by auto
qed

text \<open>
  C4, amended. A step that advances over row \<open>i\<close> writes to that row the new measured
  value and the error it computed, and leaves every other cell of the row, the cells
  \<open>P\<close>, \<open>I\<close>, \<open>D\<close> among them, as it was. It is the start of a run that writes the gains
  it fixes to the \<open>P\<close>, \<open>I\<close>, \<open>D\<close> columns the store has, in the rows the store has then.
\<close>

theorem tick_writes_back:
  "(update_plot s = Inr (Advanced i, s') \<longrightarrow>
      i = current_index s \<and>
      (\<exists>setpoint measured derivative.
         at_get (simulation_data s) i ''Setpoint'' = Inr setpoint \<and>
         at_get (simulation_data s) i ''Valor Medido'' = Inr measured \<and>
         derivative_error (fsub setpoint measured) (previous_error s)
           (dt_of (timer_interval s)) = Inr derivative \<and>
         at_get (simulation_data s') i ''Valor Medido''
           = Inr (new_measured s setpoint measured derivative) \<and>
         at_get (simulation_data s') i ''Error'' = Inr (fsub setpoint measured)) \<and>
      (c \<noteq> ''Valor Medido'' \<and> c \<noteq> ''Error'' \<longrightarrow>
         at_get (simulation_data s') i c = at_get (simulation_data s) i c)) \<and>
   (\<not> is_empty (simulation_data w) \<and> param \<in> {''P'', ''I'', ''D''} \<and>
    param \<in> set (columns (simulation_data w)) \<and> j < len (simulation_data w) \<longrightarrow>
      at_get (simulation_data (start_simulation w)) j param
        = Inr (gain (start_simulation w) param))"
proof (intro conjI impI)
  assume u: "update_plot s = Inr (Advanced i, s')"
  from u show i: "i = current_index s"
    by (rule update_plot_Inr_cases) simp_all
  from u show "\<exists>setpoint measured derivative.
         at_get (simulation_data s) i ''Setpoint'' = Inr setpoint \<and>
         at_get (simulation_data s) i ''Valor Medido'' = Inr measured \<and>
         derivative_error (fsub setpoint measured) (previous_error s)
           (dt_of (timer_interval s)) = Inr derivative \<and>
         at_get (simulation_data s') i ''Valor Medido''
           = Inr (new_measured s setpoint measured derivative) \<and>
         at_get (simulation_data s') i ''Error'' = Inr (fsub setpoint measured)"
  proof (rule update_plot_Inr_cases)
    assume "Advanced i = Done"
    then show ?thesis by simp
  next
    fix setpoint measured derivative
    assume a: "\<not> is_empty (simulation_data s)" "current_index s < len (simulation_data s)"
      "at_get (simulation_data s) (current_index s) ''Setpoint'' = Inr setpoint"
      "at_get (simulation_data s) (current_index s) ''Valor Medido'' = Inr measured"
      "derivative_error (fsub setpoint measured) (previous_error s)
         (dt_of (timer_interval s)) = Inr derivative"
    from update_plot_step [OF a] u i a(3,4,5) show ?thesis
      by auto
  qed
next
  assume "update_plot s = Inr (Advanced i, s')" "c \<noteq> ''Valor Medido'' \<and> c \<noteq> ''Error''"
  then show "at_get (simulation_data s') i c = at_get (simulation_data s) i c"
    by (simp add: update_plot_other_column)
next
  assume "\<not> is_empty (simulation_data w) \<and> param \<in> {''P'', ''I'', ''D''} \<and>
    param \<in> set (columns (simulation_data w)) \<and> j < len (simulation_data w)"
  then show "at_get (simulation_data (start_simulation w)) j param
        = Inr (gain (start_simulation w) param)"
    by (simp add: start_simulation_columns)
qed

theorem tick_writes_back_witness:
  "update_plot first_record_window = Inr (Advanced 0, ingested_window) \<and>
   ''P'' \<noteq> ''Valor Medido'' \<and> ''P'' \<noteq> ''Error'' \<and>
   at_get (simulation_data ingested_window) 0 ''P''
     = at_get (simulation_data first_record_window) 0 ''P'' \<and>
   \<not> is_empty (simulation_data first_record_window) \<and> ''P'' \<in> {''P'', ''I'', ''D''} \<and>
   ''P'' \<in> set (columns (simulation_data first_record_window)) \<and>
   0 < len (simulation_data first_record_window) \<and>
   at_get (simulation_data (start_simulation first_record_window)) 0 ''P''
     = Inr (gain (start_simulation first_record_window) ''P'')"
  using tick_writes_back [of first_record_window 0 ingested_window "''P''"
      first_record_window "''P''" 0]
    first_record_step first_record_window_facts
  by simp

text \<open>
  C5, as stated, fails: a field that the record lacks is not set to 0.0. After the
  server's first record, a record with only time, setpoint and measured value is
  appended as row 1, and the \<open>P\<close> cell of that row is NaN.
\<close>

theorem missing_field_counterexample:
  "map_of partial_record ''P'' = None \<and>
   at_get (simulation_data
             (window_after (process_received_data ingested_window (JObject partial_record))))
     1 ''P'' = Inr NaN"
  using at_get_concat_row_new [of "simulation_data ingested_window" partial_record "''P''"]
  by (simp add: ingest_other_column ingested_window_facts partial_record_def)

text \<open>
  C5, amended. In the row that \<open>process_received_data\<close> appends, a cell holds the
  record's value where the record has the field; where it has not, the cell is NaN when
  the store already had that column, and there is no such cell (reading it raises
  \<open>KeyError\<close>) when it had not. This holds right after the append for every field, and
  in the window that the call leaves for every field other than \<open>Valor Medido\<close> and
  \<open>Error\<close>, which the step run by the call may overwrite.
\<close>

theorem ingested_row_cells:
  "at_get (concat_row (simulation_data s) d) (len (simulation_data s)) c
     = (case map_of d c of
          Some v \<Rightarrow> Inr v
        | None \<Rightarrow> if c \<in> set (columns (simulation_data s)) then Inr NaN else Inl KeyError) \<and>
   (c \<noteq> ''Valor Medido'' \<and> c \<noteq> ''Error'' \<longrightarrow>
      at_get (simulation_data (window_after (process_received_data s (JObject d))))
        (len (simulation_data s)) c
        = (case map_of d c of
             Some v \<Rightarrow> Inr v
           | None \<Rightarrow> if c \<in> set (columns (simulation_data s)) then Inr NaN
                     else Inl KeyError))"
  by (simp add: at_get_concat_row_new ingest_other_column)

theorem ingested_row_cells_witness:
  "''I'' \<noteq> ''Valor Medido'' \<and> ''I'' \<noteq> ''Error'' \<and>
   at_get (simulation_data
             (window_after (process_received_data first_record_window (JObject partial_record))))
     (len (simulation_data first_record_window)) ''I'' = Inr NaN"
  using ingested_row_cells [of first_record_window partial_record "''I''"]
  by (simp add: partial_record_def first_record_window_def server_record_def concat_row_def)





lemma receive_loop_BadJson:
  "running s \<Longrightarrow> receive_loop (BadJson # rest) s = receive_loop rest s"
  by simp

lemma receive_loop_BadUtf8:
  "running s \<Longrightarrow> receive_loop (BadUtf8 # rest) s = (SocketError UnicodeDecodeError, s)"
  by simp

text \<open>
  C9. A chunk that is not UTF-8 ends the loop instead of being skipped: the exception of
  \<open>data.decode\<close> is raised outside the inner \<open>try\<close> and reaches the outer handler. After
  such a chunk the valid record that follows is not appended.
\<close>

theorem undecodable_bytes_end_ingestion:
  "start_socket_connection init_window [BadUtf8, Json (JObject scenario_record)]
     = (SocketError UnicodeDecodeError, init_window\<lparr>running := True\<rparr>) \<and>
   len (simulation_data (init_window\<lparr>running := True\<rparr>)) = 0"
  by (simp add: start_socket_connection_def init_window_def new_dataframe_def len_def)


lemma process_received_data_Inr:
  "update_plot (s\<lparr>simulation_data := concat_row (simulation_data s) d\<rparr>) = Inr (r, s') \<Longrightarrow>
   process_received_data s (JObject d) = Inr s'"
  by (simp add: process_received_data_def Let_def)

text \<open>Text that is not JSON is skipped, and the record that follows is appended.\<close>

lemma bad_json_then_valid_record:
  "fst (start_socket_connection init_window [BadJson, Json (JObject scenario_record)]) = Waiting \<and>
   len (simulation_data
          (snd (start_socket_connection init_window [BadJson, Json (JObject scenario_record)])))
     = 1"
proof -
  let ?R = "init_window\<lparr>running := True\<rparr>"
  let ?X = "?R\<lparr>simulation_data := concat_row (simulation_data ?R) scenario_record\<rparr>"
  have x: "\<not> is_empty (simulation_data ?X)" "current_index ?X < len (simulation_data ?X)"
    "at_get (simulation_data ?X) (current_index ?X) ''Setpoint'' = Inr (Fin 50)"
    "at_get (simulation_data ?X) (current_index ?X) ''Valor Medido'' = Inr (Fin 40)"
    by (simp_all add: scenario_defs)
  obtain d where d: "derivative_error (fsub (Fin 50) (Fin 40)) (previous_error ?X)
      (dt_of (timer_interval ?X)) = Inr d"
    using derivative_error_total by blast
  from update_plot_step [OF x d] obtain s' where s':
    "update_plot ?X = Inr (Advanced (current_index ?X), s')"
    "len (simulation_data s') = len (simulation_data ?X)"
    by blast
  have r: "running s'" "running ?R"
    using update_plot_settings [OF s'(1)] by (simp_all add: init_window_def)
  have l: "len (simulation_data ?X) = 1"
    by (simp add: scenario_defs)
  have "receive_loop [BadJson, Json (JObject scenario_record)] ?R = (Waiting, s')"
    using r by (simp add: process_received_data_Inr [OF s'(1)])
  with s'(2) l show ?thesis
    by (simp add: start_socket_connection_def)
qed

section \<open>Runs over rows with one error\<close>

























end
